theory Spec2Isabelle
  imports Complex_Main "HOL-Library.Word"
begin

unbundle bit_operations_syntax

section \<open>JavaScript values as the handlers of server.js see them\<close>

subsection \<open>Numbers\<close>

text \<open>
  A JavaScript number is an IEEE-754 double: NaN, the two infinities, the two zeros
  (\<open>Fin 0\<close> is +0, \<open>NZero\<close> is -0) and the finite non-zero doubles, kept by their exact
  rational value.
\<close>

datatype jsnum = NaN | PInf | NInf | NZero | Fin rat

fun log2n :: "nat \<Rightarrow> nat" where
  "log2n n = (if n < 2 then 0 else Suc (log2n (n div 2)))"

declare log2n.simps [simp del]

definition pow2 :: "int \<Rightarrow> rat" where
  "pow2 e = (if 0 \<le> e then 2 ^ nat e else 1 / 2 ^ nat (- e))"

definition ilog2 :: "rat \<Rightarrow> int" where
  \<comment> \<open>\<open>\<lfloor>log\<^sub>2 a\<rfloor>\<close> for \<open>a > 0\<close>, from the bit lengths of numerator and denominator\<close>
  "ilog2 a =
     (let k = int (log2n (nat (fst (quotient_of a)))) - int (log2n (nat (snd (quotient_of a))))
      in if pow2 k \<le> a then k else k - 1)"

definition round_half_even :: "rat \<Rightarrow> int" where
  "round_half_even x =
     (let f = \<lfloor>x\<rfloor>; r = x - of_int f
      in if r < 1 / 2 then f else if 1 / 2 < r then f + 1 else if even f then f else f + 1)"

definition round_double :: "rat \<Rightarrow> jsnum" where
  \<comment> \<open>the double nearest to a non-zero real, ties to even: 53-bit significand, least
      exponent \<open>-1074\<close> (subnormals), overflow to infinity from \<open>2\<^sup>1\<^sup>0\<^sup>2\<^sup>4\<close> on\<close>
  "round_double q =
     (let a = \<bar>q\<bar>;
          e = max (ilog2 a - 52) (- 1074);
          m = round_half_even (a / pow2 e);
          v = of_int m * pow2 e
      in if pow2 1024 \<le> v then (if q < 0 then NInf else PInf)
         else if m = 0 then (if q < 0 then NZero else Fin 0)
         else Fin (if q < 0 then - v else v))"

fun is_zero :: "jsnum \<Rightarrow> bool" where
  "is_zero NZero = True"
| "is_zero (Fin q) = (q = 0)"
| "is_zero _ = False"

fun is_inf :: "jsnum \<Rightarrow> bool" where
  "is_inf PInf = True"
| "is_inf NInf = True"
| "is_inf _ = False"

fun negative :: "jsnum \<Rightarrow> bool" where
  "negative NInf = True"
| "negative NZero = True"
| "negative (Fin q) = (q < 0)"
| "negative _ = False"

fun finite_value :: "jsnum \<Rightarrow> rat" where
  "finite_value (Fin q) = q"
| "finite_value _ = 0"

definition js_mul :: "jsnum \<Rightarrow> jsnum \<Rightarrow> jsnum" where
  \<comment> \<open>the operator \<open>*\<close> on two numbers\<close>
  "js_mul x y =
     (if x = NaN \<or> y = NaN then NaN
      else if is_inf x \<or> is_inf y then
        (if is_zero x \<or> is_zero y then NaN
         else if negative x \<noteq> negative y then NInf else PInf)
      else if is_zero x \<or> is_zero y then
        (if negative x \<noteq> negative y then NZero else Fin 0)
      else round_double (finite_value x * finite_value y))"

fun Math_round :: "jsnum \<Rightarrow> jsnum" where
  \<comment> \<open>\<open>Math.round\<close>: the nearest integer, a tie going towards \<open>+\<infinity>\<close>; a negative
      argument that rounds to zero gives -0\<close>
  "Math_round (Fin q) =
     (if q < 0 \<and> - (1 / 2) \<le> q then NZero else Fin (of_int \<lfloor>q + 1 / 2\<rfloor>))"
| "Math_round n = n"

subsection \<open>Values, truthiness, typeof, property reads\<close>

text \<open>
  The values that reach the handlers come out of a JSON parser, or are \<open>undefined\<close>
  (a property that is not there, a body that was never parsed). An object is the list of
  its own properties, read by first match. Strings are kept as their UTF-8 bytes.
\<close>

datatype jsval =
    JUndefined
  | JNull
  | JBool bool
  | JNum jsnum
  | JStr string
  | JArr "jsval list"
  | JObj "(string \<times> jsval) list"

datatype js_error = TypeError | SyntaxError

fun truthy :: "jsval \<Rightarrow> bool" where
  "truthy JUndefined = False"
| "truthy JNull = False"
| "truthy (JBool b) = b"
| "truthy (JNum n) = (n \<noteq> NaN \<and> \<not> is_zero n)"
| "truthy (JStr s) = (s \<noteq> [])"
| "truthy (JArr xs) = True"
| "truthy (JObj kvs) = True"

fun typeof :: "jsval \<Rightarrow> string" where
  "typeof JUndefined = ''undefined''"
| "typeof JNull = ''object''"
| "typeof (JBool b) = ''boolean''"
| "typeof (JNum n) = ''number''"
| "typeof (JStr s) = ''string''"
| "typeof (JArr xs) = ''object''"
| "typeof (JObj kvs) = ''object''"

fun get_prop :: "jsval \<Rightarrow> string \<Rightarrow> js_error + jsval" where
  \<comment> \<open>\<open>v.name\<close> for the names the handlers read (\<open>amount_in_inr\<close>, \<open>event\<close>,
      \<open>payload\<close>, \<open>short_url\<close>, \<open>link_url\<close>): none of them is a property of an array,
      a string, a number or a boolean; reading from \<open>undefined\<close> or \<open>null\<close> throws\<close>
  "get_prop JUndefined name = Inl TypeError"
| "get_prop JNull name = Inl TypeError"
| "get_prop (JObj kvs) name = Inr (case map_of kvs name of None \<Rightarrow> JUndefined | Some v \<Rightarrow> v)"
| "get_prop v name = Inr JUndefined"

fun to_number :: "jsval \<Rightarrow> jsnum" where
  \<comment> \<open>the operand of \<open>*\<close>; server.js multiplies only after
      \<open>typeof amount_in_inr === 'number'\<close>, so no conversion ever takes place\<close>
  "to_number (JNum n) = n"
| "to_number v = NaN"

fun json_number :: "jsnum \<Rightarrow> jsval" where
  \<comment> \<open>a number as \<open>JSON.stringify\<close> writes it and a JSON parser reads it back: NaN and
      the infinities are written \<open>null\<close>, -0 is written \<open>0\<close>\<close>
  "json_number (Fin q) = JNum (Fin q)"
| "json_number NZero = JNum (Fin 0)"
| "json_number n = JNull"

section \<open>HMAC-SHA256, as \<open>crypto.createHmac('sha256', key).update(raw).digest('hex')\<close>\<close>

text \<open>
  SHA-256 over bytes with 32-bit words (FIPS 180-4), HMAC with its 64-byte block
  (RFC 2104), and the digest written as 64 lower-case hexadecimal characters.
\<close>

type_synonym byte = "8 word"
type_synonym w32 = "32 word"
type_synonym sha_state = "w32 \<times> w32 \<times> w32 \<times> w32 \<times> w32 \<times> w32 \<times> w32 \<times> w32"

definition Ch :: "w32 \<Rightarrow> w32 \<Rightarrow> w32 \<Rightarrow> w32" where
  "Ch x y z = (x AND y) XOR (NOT x AND z)"

definition Maj :: "w32 \<Rightarrow> w32 \<Rightarrow> w32 \<Rightarrow> w32" where
  "Maj x y z = (x AND y) XOR (x AND z) XOR (y AND z)"

definition bsig0 :: "w32 \<Rightarrow> w32" where
  "bsig0 x = word_rotr 2 x XOR word_rotr 13 x XOR word_rotr 22 x"

definition bsig1 :: "w32 \<Rightarrow> w32" where
  "bsig1 x = word_rotr 6 x XOR word_rotr 11 x XOR word_rotr 25 x"

definition ssig0 :: "w32 \<Rightarrow> w32" where
  "ssig0 x = word_rotr 7 x XOR word_rotr 18 x XOR drop_bit 3 x"

definition ssig1 :: "w32 \<Rightarrow> w32" where
  "ssig1 x = word_rotr 17 x XOR word_rotr 19 x XOR drop_bit 10 x"

text \<open>
  The round constants are the first 32 bits of the fractional parts of the cube roots of
  the first 64 primes (2 to 311): \<open>\<lfloor>\<^sup>3\<surd>(p \<sqdot> 2\<^sup>9\<^sup>6)\<rfloor>\<close> modulo \<open>2\<^sup>3\<^sup>2\<close>.
\<close>

definition is_prime :: "nat \<Rightarrow> bool" where
  "is_prime n = (2 \<le> n \<and> list_all (\<lambda>d. n mod d \<noteq> 0) [2..<n])"

fun cube_root_bits :: "nat \<Rightarrow> nat \<Rightarrow> nat \<Rightarrow> nat" where
  \<comment> \<open>the integer cube root of \<open>n\<close>, settled bit by bit from bit \<open>k - 1\<close> down\<close>
  "cube_root_bits 0 n r = r"
| "cube_root_bits (Suc k) n r =
     cube_root_bits k n (if (r + 2 ^ k) ^ 3 \<le> n then r + 2 ^ k else r)"

definition round_constant :: "nat \<Rightarrow> w32" where
  "round_constant p = of_nat (cube_root_bits 36 (p * 2 ^ 96) 0)"

definition sha256_K :: "w32 list" where
  "sha256_K = map round_constant (filter is_prime [2..<312])"

definition sha256_H0 :: sha_state where
  "sha256_H0 = (0x6a09e667, 0xbb67ae85, 0x3c6ef372, 0xa54ff53a,
                0x510e527f, 0x9b05688c, 0x1f83d9ab, 0x5be0cd19)"

fun be_word :: "byte list \<Rightarrow> w32" where
  "be_word bs = foldl (\<lambda>acc b. push_bit 8 acc OR ucast b) 0 bs"

fun block_words :: "nat \<Rightarrow> byte list \<Rightarrow> w32 list" where
  "block_words 0 bs = []"
| "block_words (Suc n) bs = be_word (take 4 bs) # block_words n (drop 4 bs)"

fun expand :: "nat \<Rightarrow> w32 list \<Rightarrow> w32 list" where
  "expand 0 w = w"
| "expand (Suc n) w =
     (let t = length w
      in expand n (w @ [ssig1 (w ! (t - 2)) + w ! (t - 7) + ssig0 (w ! (t - 15)) + w ! (t - 16)]))"

definition schedule :: "byte list \<Rightarrow> w32 list" where
  "schedule block = expand 48 (block_words 16 block)"

fun sha_round :: "sha_state \<Rightarrow> w32 \<times> w32 \<Rightarrow> sha_state" where
  "sha_round (a, b, c, d, e, f, g, h) (k, w) =
     (let t1 = h + bsig1 e + Ch e f g + k + w;
          t2 = bsig0 a + Maj a b c
      in (t1 + t2, a, b, c, d + t1, e, f, g))"

fun add_state :: "sha_state \<Rightarrow> sha_state \<Rightarrow> sha_state" where
  "add_state (a, b, c, d, e, f, g, h) (a', b', c', d', e', f', g', h') =
     (a + a', b + b', c + c', d + d', e + e', f + f', g + g', h + h')"

definition compress :: "sha_state \<Rightarrow> byte list \<Rightarrow> sha_state" where
  "compress H block = add_state H (foldl sha_round H (zip sha256_K (schedule block)))"

fun length_bytes :: "64 word \<Rightarrow> byte list" where
  "length_bytes n = map (\<lambda>i. ucast (drop_bit (8 * (7 - i)) n)) [0..<8]"

definition sha_pad :: "byte list \<Rightarrow> byte list" where
  "sha_pad msg =
     msg @ [0x80] @ replicate ((64 - (length msg + 9) mod 64) mod 64) 0
         @ length_bytes (of_nat (8 * length msg))"

fun sha_blocks :: "nat \<Rightarrow> byte list \<Rightarrow> byte list list" where
  "sha_blocks 0 bs = []"
| "sha_blocks (Suc n) bs = take 64 bs # sha_blocks n (drop 64 bs)"

fun word_bytes :: "w32 \<Rightarrow> byte list" where
  "word_bytes w = [ucast (drop_bit 24 w), ucast (drop_bit 16 w), ucast (drop_bit 8 w), ucast w]"

fun state_bytes :: "sha_state \<Rightarrow> byte list" where
  "state_bytes (a, b, c, d, e, f, g, h) =
     word_bytes a @ word_bytes b @ word_bytes c @ word_bytes d @
     word_bytes e @ word_bytes f @ word_bytes g @ word_bytes h"

definition sha256 :: "byte list \<Rightarrow> byte list" where
  "sha256 msg =
     (let p = sha_pad msg
      in state_bytes (foldl compress sha256_H0 (sha_blocks (length p div 64) p)))"

definition hmac_sha256 :: "byte list \<Rightarrow> byte list \<Rightarrow> byte list" where
  "hmac_sha256 key msg =
     (let k0 = (if length key > 64 then sha256 key else key);
          k = k0 @ replicate (64 - length k0) 0
      in sha256 (map (\<lambda>b. b XOR 0x5c) k @ sha256 (map (\<lambda>b. b XOR 0x36) k @ msg)))"

definition hex_digit :: "nat \<Rightarrow> char" where
  "hex_digit n = ''0123456789abcdef'' ! n"

fun hex :: "byte list \<Rightarrow> string" where
  "hex [] = []"
| "hex (b # bs) = hex_digit (unat b div 16) # hex_digit (unat b mod 16) # hex bs"

definition utf8_bytes :: "string \<Rightarrow> byte list" where
  \<comment> \<open>a string key is hashed as its UTF-8 bytes, which is how strings are kept here\<close>
  "utf8_bytes s = map of_char s"

definition hmac_sha256_hex :: "string \<Rightarrow> byte list \<Rightarrow> string" where
  "hmac_sha256_hex secret raw = hex (hmac_sha256 (utf8_bytes secret) raw)"

section \<open>Responses and the calls a handler makes\<close>

text \<open>
  A response is its status and its body: plain text (\<open>res.send\<close>), JSON
  (\<open>res.json\<close>), or the page Express writes by itself for an error that no handler of
  server.js caught.
\<close>

datatype res_body = Text string | Json jsval | ErrorPage

datatype response = Response nat res_body

record link_payload =
  amount :: jsnum
  currency :: string
  accept_partial :: bool
  description :: string

text \<open>
  What a handler does besides answering, in order: the console calls, the HMAC it
  computes, and the request it sends to the provider. The request is kept by its URL and
  the payload object given to \<open>JSON.stringify\<close>; its headers bear on nothing below.
\<close>

datatype effect =
    ConsoleWarn string
  | ConsoleLog string jsval
  | ConsoleLogJson string jsval
  | ConsoleError string jsval
  | ConsoleErrorExn string js_error
  | CreateHmac string "byte list"
  | Fetch string link_payload

fun is_fetch :: "effect \<Rightarrow> bool" where
  "is_fetch (Fetch url p) = True"
| "is_fetch _ = False"

fun is_hmac :: "effect \<Rightarrow> bool" where
  "is_hmac (CreateHmac key raw) = True"
| "is_hmac _ = False"

fun is_event_handling :: "effect \<Rightarrow> bool" where
  "is_event_handling (ConsoleLog label v) = True"
| "is_event_handling (ConsoleLogJson label v) = True"
| "is_event_handling _ = False"

text \<open>
  What \<open>await fetch(...)\<close> followed by \<open>await resp.json()\<close> can give: the call rejects
  with an error, or it resolves with \<open>resp.ok\<close> and a body that \<open>resp.json()\<close> parses
  or rejects.
\<close>

datatype fetch_outcome = FetchRejects js_error | FetchResolves bool "js_error + jsval"

section \<open>POST /api/create-link\<close>

text \<open>
  The handler of server.js, lines 41 to 79, as a function of the parsed request body
  (\<open>req.body\<close>; \<open>undefined\<close> when no body was parsed) and of what the provider answers
  if it is called. The whole handler runs in a \<open>try\<close>: whatever throws inside is logged
  and answered 500. The result is the response and the calls made, in order.
\<close>

definition amountPaise :: "jsval \<Rightarrow> jsnum" where
  \<comment> \<open>line 47: \<open>Math.round(amount_in_inr * 100)\<close>\<close>
  "amountPaise amount_in_inr = Math_round (js_mul (to_number amount_in_inr) (Fin 100))"

definition payload :: "jsnum \<Rightarrow> link_payload" where
  "payload paise =
     \<lparr>amount = paise, currency = ''INR'', accept_partial = False,
      description = ''Payment to me (demo)''\<rparr>"

definition payment_links_url :: string where
  "payment_links_url = ''https://api.razorpay.com/v1/payment_links''"

definition amount_required :: response where
  "amount_required = Response 400 (Json (JObj [(''error'', JStr ''amount_in_inr required (number)'')]))"

definition internal_server_error :: response where
  "internal_server_error = Response 500 (Json (JObj [(''error'', JStr ''internal server error'')]))"

definition provider_error :: "jsval \<Rightarrow> response" where
  "provider_error data =
     Response 502 (Json (JObj [(''error'', JStr ''payment provider error''), (''details'', data)]))"

definition link_result :: "jsval \<Rightarrow> response" where
  \<comment> \<open>\<open>res.json({ link_url: v })\<close>; a property holding \<open>undefined\<close> is left out of the text sent\<close>
  "link_result v = Response 200 (Json (JObj [(''link_url'', v)]))"

definition caught :: "js_error \<Rightarrow> effect" where
  "caught err = ConsoleErrorExn ''create-link error:'' err"

definition create_link :: "jsval \<Rightarrow> fetch_outcome \<Rightarrow> response \<times> effect list" where
  "create_link body provider =
     (case get_prop body ''amount_in_inr'' of
        Inl err \<Rightarrow> (internal_server_error, [caught err])
      | Inr amount_in_inr \<Rightarrow>
          if \<not> truthy amount_in_inr \<or> typeof amount_in_inr \<noteq> ''number''
          then (amount_required, [])
          else
            let call = Fetch payment_links_url (payload (amountPaise amount_in_inr))
            in (case provider of
                  FetchRejects err \<Rightarrow> (internal_server_error, [call, caught err])
                | FetchResolves ok (Inl err) \<Rightarrow> (internal_server_error, [call, caught err])
                | FetchResolves ok (Inr data) \<Rightarrow>
                    if \<not> ok
                    then (provider_error data,
                          [call, ConsoleError ''Razorpay create-link error:'' data])
                    else
                      (case get_prop data ''short_url'' of
                         Inl err \<Rightarrow> (internal_server_error, [call, caught err])
                       | Inr short_url \<Rightarrow>
                           if truthy short_url then (link_result short_url, [call])
                           else
                             (case get_prop data ''link_url'' of
                                Inl err \<Rightarrow> (internal_server_error, [call, caught err])
                              | Inr link_url \<Rightarrow> (link_result link_url, [call])))))"

section \<open>POST /api/webhook\<close>

text \<open>
  A delivery as the handler of server.js, lines 83 to 114, reads it: the header
  \<open>x-razorpay-signature\<close> (\<open>None\<close> when absent), the raw bytes that the \<open>verify\<close> hook
  of the JSON body parser stored in \<open>req.rawBody\<close> (\<open>None\<close> when the hook never ran;
  a Buffer, also one of no bytes, is truthy), and the parsed body.

  The secret is \<open>process.env.RAZOR_WEBHOOK_SECRET\<close>, read at each request; unset and
  empty are both falsy, as are an absent and an empty header. The handler has no
  \<open>try\<close>: \<open>Inl\<close> is an error thrown out of it.
\<close>

record webhook_request =
  signature :: "string option"
  rawBody :: "byte list option"
  body :: jsval

definition secret_not_configured :: "(js_error + response) \<times> effect list" where
  "secret_not_configured =
     (Inr (Response 500 (Text ''webhook secret not configured'')),
      [ConsoleWarn ''RAZOR_WEBHOOK_SECRET not configured''])"

definition bad_request :: "(js_error + response) \<times> effect list" where
  "bad_request =
     (Inr (Response 400 (Text ''bad request'')), [ConsoleWarn ''Missing signature or raw body''])"

definition webhook :: "string option \<Rightarrow> webhook_request \<Rightarrow> (js_error + response) \<times> effect list" where
  "webhook webhookSecret req =
     (case webhookSecret of
        None \<Rightarrow> secret_not_configured
      | Some secret \<Rightarrow>
          if secret = [] then secret_not_configured
          else
            (case (signature req, rawBody req) of
               (Some sig, Some raw) \<Rightarrow>
                 if sig = [] then bad_request
                 else
                   let expected = hmac_sha256_hex secret raw;
                       digest = CreateHmac secret raw
                   in if sig = expected then
                        (case get_prop (body req) ''event'' of
                           Inl err \<Rightarrow> (Inl err, [digest])
                         | Inr event \<Rightarrow>
                             let verified = ConsoleLog ''Verified webhook event:'' event
                             in if event = JStr ''payment_link.paid'' then
                                  (case get_prop (body req) ''payload'' of
                                     Inl err \<Rightarrow> (Inl err, [digest, verified])
                                   | Inr p \<Rightarrow>
                                       (Inr (Response 200 (Text ''ok'')),
                                        [digest, verified,
                                         ConsoleLogJson ''Payment link paid payload:''
                                           (if truthy p then p else body req)]))
                                else (Inr (Response 200 (Text ''ok'')), [digest, verified]))
                      else
                        (Inr (Response 400 (Text ''invalid signature'')),
                         [digest, ConsoleWarn ''Invalid webhook signature''])
             | _ \<Rightarrow> bad_request))"

subsection \<open>The route behind the JSON body parser\<close>

text \<open>
  \<open>app.use(express.json({ verify }))\<close> (lines 9 to 13) runs before every route. What it
  does with a request is one of three things: it leaves the request alone (there is no
  body, or the content type is not JSON), so that \<open>req.rawBody\<close> is never set and
  \<open>req.body\<close> is what Express left there (\<open>{}\<close> or \<open>undefined\<close>, by its version); it reads
  the bytes, hands them to the \<open>verify\<close> hook, which stores them in \<open>req.rawBody\<close>, and
  parses them into \<open>req.body\<close>; or it fails (a body that is not JSON gives status 400)
  and passes its error on, so that no route runs and Express answers with that status.
  The CORS middleware (lines 17 to 23) lets a POST through.
\<close>

datatype body_parser = NotRead jsval | ReadOk "byte list" jsval | ReadFailed nat

definition through_express :: "(js_error + response) \<times> effect list \<Rightarrow> response \<times> effect list" where
  \<comment> \<open>an error thrown out of a handler has no status of its own: Express answers 500\<close>
  "through_express r =
     (case r of
        (Inl err, calls) \<Rightarrow> (Response 500 ErrorPage, calls)
      | (Inr res, calls) \<Rightarrow> (res, calls))"

fun post_webhook ::
  "string option \<Rightarrow> string option \<Rightarrow> body_parser \<Rightarrow> response \<times> effect list" where
  \<comment> \<open>a POST to \<open>/api/webhook\<close> with the given signature header, through the body
      parser and then the handler\<close>
  "post_webhook webhookSecret sig (ReadFailed status) = (Response status ErrorPage, [])"
| "post_webhook webhookSecret sig (NotRead b) =
     through_express (webhook webhookSecret \<lparr>signature = sig, rawBody = None, body = b\<rparr>)"
| "post_webhook webhookSecret sig (ReadOk raw b) =
     through_express (webhook webhookSecret \<lparr>signature = sig, rawBody = Some raw, body = b\<rparr>)"

section \<open>Notions the statements below use\<close>

definition signature_verifies :: "string option \<Rightarrow> webhook_request \<Rightarrow> bool" where
  \<comment> \<open>a secret is configured, header and raw body are there, and the header is the hex
      HMAC-SHA256 of the raw bytes under the secret\<close>
  "signature_verifies webhookSecret req =
     (case (webhookSecret, signature req, rawBody req) of
        (Some secret, Some sig, Some raw) \<Rightarrow> secret \<noteq> [] \<and> sig = hmac_sha256_hex secret raw
      | _ \<Rightarrow> False)"



fun has_field :: "jsval \<Rightarrow> string \<Rightarrow> bool" where
  \<comment> \<open>a JSON value contains a field when it is an object with that key\<close>
  "has_field (JObj kvs) name = (map_of kvs name \<noteq> None)"
| "has_field v name = False"

section \<open>Facts about the primitives\<close>

subsection \<open>The digest is 64 hexadecimal characters\<close>

lemma length_state_bytes: "length (state_bytes s) = 32"
  by (induction s rule: state_bytes.induct) simp

lemma length_sha256: "length (sha256 msg) = 32"
  by (simp add: sha256_def Let_def length_state_bytes)

lemma length_hex: "length (hex bs) = 2 * length bs"
  by (induction bs) simp_all

lemma length_hmac_sha256_hex: "length (hmac_sha256_hex secret raw) = 64"
  by (simp add: hmac_sha256_hex_def hmac_sha256_def Let_def length_hex length_sha256)

lemma hmac_sha256_hex_nonempty: "hmac_sha256_hex secret raw \<noteq> []"
  using length_hmac_sha256_hex [of secret raw] by auto

lemma short_signature_differs: "length sig < 64 \<Longrightarrow> sig \<noteq> hmac_sha256_hex secret raw"
  using length_hmac_sha256_hex [of secret raw] by auto

subsection \<open>Products of positive numbers\<close>

lemma pow2_pos: "0 < pow2 e"
  by (simp add: pow2_def)



subsection \<open>Evaluating products\<close>

lemma log2n_small: "log2n 0 = 0" "log2n 1 = 0" "log2n (Suc 0) = 0"
  by (simp_all add: log2n.simps)

lemma log2n_numeral:
  "log2n (numeral k) = (if numeral k < (2::nat) then 0 else Suc (log2n (numeral k div 2)))"
  by (rule log2n.simps)

lemmas log2n_eval = log2n_small log2n_numeral

lemma round_double_1000: "round_double 1000 = Fin 1000"
proof -
  have "ilog2 1000 = 9"
    by (simp add: ilog2_def pow2_def log2n_eval)
  then show ?thesis
    by (simp add: round_double_def pow2_def round_half_even_def Let_def)
qed

lemma round_double_minus: "round_double (- 500) = Fin (- 500)" "round_double (- 100) = Fin (- 100)"
proof -
  have "ilog2 500 = 8" "ilog2 100 = 6"
    by (simp_all add: ilog2_def pow2_def log2n_eval)
  then show "round_double (- 500) = Fin (- 500)" "round_double (- 100) = Fin (- 100)"
    by (simp_all add: round_double_def pow2_def round_half_even_def Let_def)
qed

subsection \<open>Rounding\<close>

lemma Math_round_of_int: "Math_round (Fin (of_int n)) = Fin (of_int n)"
proof -
  have "\<lfloor>rat_of_int n + 1 / 2\<rfloor> = n"
    by (rule floor_unique) simp_all
  moreover have "\<not> (rat_of_int n < 0 \<and> - (1 / 2) \<le> rat_of_int n)"
  proof
    assume a: "rat_of_int n < 0 \<and> - (1 / 2) \<le> rat_of_int n"
    then have "n \<le> - 1" by simp
    then have "rat_of_int n \<le> - 1" by (metis of_int_le_iff of_int_minus of_int_1)
    with a show False by simp
  qed
  ultimately show ?thesis by simp
qed

lemma Math_round_minus:
  "Math_round (Fin (- 500)) = Fin (- 500)" "Math_round (Fin (- 100)) = Fin (- 100)"
  using Math_round_of_int [of "- 500"] Math_round_of_int [of "- 100"] by simp_all

lemma amountPaise_10: "amountPaise (JNum (Fin 10)) = Fin 1000"
  using Math_round_of_int [of 1000]
  by (simp add: amountPaise_def js_mul_def round_double_1000 del: Math_round.simps)

subsection \<open>Powers of two and the binary logarithm\<close>

lemma pow2_powi: "pow2 e = 2 powi e"
  by (simp add: pow2_def power_int_def field_simps)

lemma pow2_add: "pow2 (x + y) = pow2 x * pow2 y"
  by (simp add: pow2_powi power_int_add)


lemma pow2_mono: "x \<le> y \<Longrightarrow> pow2 x \<le> pow2 y"
  by (simp add: pow2_powi power_int_increasing)


lemma log2n_bounds: "0 < n \<Longrightarrow> 2 ^ log2n n \<le> n \<and> n < 2 ^ Suc (log2n n)"
proof (induction n rule: log2n.induct)
  case (1 n)
  show ?case
  proof (cases "n < 2")
    case True
    with "1.prems" have "n = 1" by simp
    then show ?thesis by (simp add: log2n.simps)
  next
    case False
    then have "0 < n div 2" by simp
    with "1.IH" False have ih: "2 ^ log2n (n div 2) \<le> n div 2" "n div 2 < 2 ^ Suc (log2n (n div 2))"
      by simp_all
    have eq: "log2n n = Suc (log2n (n div 2))"
      using False by (subst log2n.simps) simp
    from ih show ?thesis
      unfolding eq by (simp; linarith)
  qed
qed

lemma ilog2_bounds:
  assumes "0 < a"
  shows "pow2 (ilog2 a) \<le> a" and "a < pow2 (ilog2 a + 1)"
proof -
  obtain p d where pd: "quotient_of a = (p, d)"
    by (cases "quotient_of a")
  then have d: "0 < d" and a: "a = of_int p / of_int d"
    using quotient_of_denom_pos [OF pd] quotient_of_div [OF pd] by simp_all
  from assms a d have p: "0 < p"
    by (simp add: zero_less_divide_iff)
  define lp where "lp = log2n (nat p)"
  define ld where "ld = log2n (nat d)"
  define k where "k = int lp - int ld"
  from log2n_bounds [of "nat p"] p have "2 ^ lp \<le> nat p" "nat p < 2 ^ Suc lp"
    by (simp_all add: lp_def)
  then have pb: "(2::rat) ^ lp \<le> of_int p" "(of_int p :: rat) < 2 ^ Suc lp"
    using p
    by (metis of_nat_le_iff of_nat_nat of_nat_numeral of_nat_power order_less_imp_le of_int_of_nat_eq,
        metis of_nat_less_iff of_nat_nat of_nat_numeral of_nat_power order_less_imp_le of_int_of_nat_eq)
  from log2n_bounds [of "nat d"] d have "2 ^ ld \<le> nat d" "nat d < 2 ^ Suc ld"
    by (simp_all add: ld_def)
  then have db: "(2::rat) ^ ld \<le> of_int d" "(of_int d :: rat) < 2 ^ Suc ld"
    using d
    by (metis of_nat_le_iff of_nat_nat of_nat_numeral of_nat_power order_less_imp_le of_int_of_nat_eq,
        metis of_nat_less_iff of_nat_nat of_nat_numeral of_nat_power order_less_imp_le of_int_of_nat_eq)
  have dpos: "(0::rat) < of_int d" using d by simp
  have lower: "pow2 (k - 1) < a"
  proof -
    have "pow2 (k - 1) = 2 ^ lp / 2 ^ Suc ld"
      by (simp add: k_def pow2_powi power_int_diff)
    also have "\<dots> < 2 ^ lp / of_int d"
      using db(2) dpos by (simp add: frac_less2)
    also have "\<dots> \<le> of_int p / of_int d"
      using pb(1) dpos by (simp add: divide_right_mono)
    finally show ?thesis by (simp add: a)
  qed
  have upper: "a < pow2 (k + 1)"
  proof -
    have "a < 2 ^ Suc lp / of_int d"
      using pb(2) dpos by (simp add: a divide_strict_right_mono)
    also have "\<dots> \<le> 2 ^ Suc lp / 2 ^ ld"
      using db(1) by (simp add: frac_le)
    also have "\<dots> = pow2 (k + 1)"
      by (simp add: k_def pow2_powi power_int_diff power_int_add)
    finally show ?thesis .
  qed
  have il: "ilog2 a = (if pow2 k \<le> a then k else k - 1)"
    by (simp add: ilog2_def pd lp_def ld_def k_def Let_def)
  show "pow2 (ilog2 a) \<le> a"
    using lower by (auto simp: il)
  show "a < pow2 (ilog2 a + 1)"
    using upper by (auto simp: il)
qed

subsection \<open>Rounding to an integer significand\<close>

lemma round_half_even_cases:
  "round_half_even x = \<lfloor>x\<rfloor> \<and> x - of_int \<lfloor>x\<rfloor> \<le> 1 / 2
   \<or> round_half_even x = \<lfloor>x\<rfloor> + 1 \<and> 1 / 2 \<le> x - of_int \<lfloor>x\<rfloor>"
  by (auto simp: round_half_even_def Let_def)

lemma nearest_of_cases:
  fixes F K x r :: rat
  assumes "F \<le> x" and "x < F + 1" and "K \<le> F \<or> F + 1 \<le> K"
    and "r = F \<and> x - F \<le> 1 / 2 \<or> r = F + 1 \<and> 1 / 2 \<le> x - F"
  shows "\<bar>r - x\<bar> \<le> \<bar>K - x\<bar>" and "\<bar>r - x\<bar> \<le> 1 / 2"
  using assms by (auto simp: abs_if)

lemma round_half_even_nearest:
  "\<bar>of_int (round_half_even x) - x\<bar> \<le> \<bar>of_int k - x\<bar>"
proof -
  have "k \<le> \<lfloor>x\<rfloor> \<or> \<lfloor>x\<rfloor> + 1 \<le> k"
    by linarith
  then have k: "(of_int k :: rat) \<le> of_int \<lfloor>x\<rfloor> \<or> (of_int \<lfloor>x\<rfloor> :: rat) + 1 \<le> of_int k"
    by (metis of_int_1 of_int_add of_int_le_iff)
  have c: "(of_int (round_half_even x) :: rat) = of_int \<lfloor>x\<rfloor> \<and> x - of_int \<lfloor>x\<rfloor> \<le> 1 / 2
      \<or> (of_int (round_half_even x) :: rat) = of_int \<lfloor>x\<rfloor> + 1 \<and> 1 / 2 \<le> x - of_int \<lfloor>x\<rfloor>"
    using round_half_even_cases [of x] by auto
  show ?thesis
    by (rule nearest_of_cases(1) [OF of_int_floor_le _ k c]) linarith
qed

lemma round_half_even_error: "\<bar>of_int (round_half_even x) - x\<bar> \<le> 1 / 2"
  using round_half_even_nearest [of x "\<lfloor>x\<rfloor>"] round_half_even_nearest [of x "\<lfloor>x\<rfloor> + 1"]
  by (simp add: abs_if split: if_splits; linarith)

lemma pow2_numerals: "pow2 0 = 1" "pow2 1 = 2" "pow2 (numeral k) = 2 ^ numeral k"
  by (simp_all add: pow2_powi)

lemma round_double_pos_unfold:
  assumes "0 < q"
  shows "round_double q =
     (let e = max (ilog2 q - 52) (- 1074);
          m = round_half_even (q / pow2 e);
          v = of_int m * pow2 e
      in if pow2 1024 \<le> v then PInf else Fin v)"
  using assms by (auto simp: round_double_def Let_def)


subsection \<open>The product of doubles is a nearest double\<close>



lemma pow2_less_imp: "pow2 x < pow2 y \<Longrightarrow> x < y"
  using pow2_mono [of y x] by (cases "x < y") simp_all



lemma round_double_huge:
  assumes "pow2 1024 \<le> q"
  shows "round_double q = PInf"
proof -
  have q: "0 < q"
    using assms pow2_pos [of 1024] by simp
  define l where "l = ilog2 q"
  define e where "e = max (l - 52) (- 1074)"
  define x where "x = q / pow2 e"
  define m where "m = round_half_even x"
  have pe: "0 < pow2 e" by (rule pow2_pos)
  have "pow2 1024 < pow2 (l + 1)"
    using assms ilog2_bounds(2) [OF q] by (simp add: l_def)
  then have l: "1024 \<le> l"
    using pow2_less_imp [of 1024 "l + 1"] by simp
  then have e: "e = l - 52"
    by (simp add: e_def)
  have "pow2 l \<le> q"
    using ilog2_bounds(1) [OF q] by (simp add: l_def)
  moreover have "pow2 l = 2 ^ 52 * pow2 e"
    using pow2_add [of 52 e] by (simp add: e pow2_numerals)
  ultimately have "2 ^ 52 \<le> x"
    using pe by (simp add: x_def pos_le_divide_eq)
  moreover have "x - of_int m \<le> 1 / 2"
    using round_half_even_error [of x] unfolding m_def by linarith
  ultimately have "(of_int (2 ^ 52 - 1) :: rat) < of_int m"
    by simp
  then have "2 ^ 52 - 1 < m"
    by (simp only: of_int_less_iff)
  then have "2 ^ 52 \<le> m"
    by simp
  then have "(of_int (2 ^ 52) :: rat) \<le> of_int m"
    by (simp only: of_int_le_iff)
  then have "2 ^ 52 * pow2 e \<le> of_int m * pow2 e"
    using pe by (simp add: mult_right_mono)
  with \<open>pow2 l = 2 ^ 52 * pow2 e\<close> pow2_mono [OF l] have "pow2 1024 \<le> of_int m * pow2 e"
    by simp
  then show ?thesis
    unfolding round_double_pos_unfold [OF q] Let_def l_def [symmetric] e_def [symmetric]
      x_def [symmetric] m_def [symmetric]
    by simp
qed




subsection \<open>Rounding the product to paise\<close>






subsection \<open>Property reads and the amount check\<close>

lemma response_distinct:
  "internal_server_error \<noteq> amount_required"
  "provider_error data \<noteq> amount_required"
  "link_result v \<noteq> amount_required"
  by (simp_all add: internal_server_error_def amount_required_def provider_error_def
      link_result_def)

lemma checked_amount_cases:
  "(\<not> truthy v \<or> typeof v \<noteq> ''number'') \<longleftrightarrow>
   ((\<forall>n. v \<noteq> JNum n) \<or> v = JNum (Fin 0) \<or> v = JNum NZero \<or> v = JNum NaN)"
proof (cases v)
  case (JNum n)
  then show ?thesis by (cases n) auto
qed auto


subsection \<open>Property reads\<close>

lemma get_prop_other: "get_prop v name = Inr x \<Longrightarrow> \<exists>y. get_prop v name' = Inr y"
  by (cases v) simp_all

lemma get_prop_defined:
  "v \<noteq> JUndefined \<Longrightarrow> v \<noteq> JNull \<Longrightarrow> \<exists>x. get_prop v name = Inr x"
  by (cases v) simp_all

lemma create_link_checked_amount:
  assumes "get_prop reqBody ''amount_in_inr'' = Inr v"
  shows "fst (create_link reqBody provider) = amount_required
         \<longleftrightarrow> ((\<forall>n. v \<noteq> JNum n) \<or> v = JNum (Fin 0) \<or> v = JNum NZero \<or> v = JNum NaN)"
proof (cases "\<not> truthy v \<or> typeof v \<noteq> ''number''")
  case True
  then have "create_link reqBody provider = (amount_required, [])"
    using assms by (simp add: create_link_def)
  with True show ?thesis
    by (simp add: checked_amount_cases [symmetric])
next
  case False
  then have "fst (create_link reqBody provider) \<noteq> amount_required"
    using assms
    by (auto simp: create_link_def Let_def response_distinct
        split: fetch_outcome.splits sum.splits)
  with False show ?thesis
    by (simp add: checked_amount_cases [symmetric])
qed

lemma webhook_secret_unset:
  assumes "webhookSecret = None \<or> webhookSecret = Some []"
  shows "webhook webhookSecret req =
           (Inr (Response 500 (Text ''webhook secret not configured'')),
            [ConsoleWarn ''RAZOR_WEBHOOK_SECRET not configured''])"
  using assms by (auto simp: webhook_def secret_not_configured_def)

section \<open>The webhook receiver\<close>

text \<open>
  C1. The event field of the parsed body is read only after the signature has verified.
  For a delivery whose signature does not verify (no secret, no header, no raw body, or a
  header that differs from the hex HMAC-SHA256 of the raw bytes), the handler's answer and
  calls do not depend on the parsed body at all, none of its calls handles an event, and
  when the secret, the header and the raw body are all there the answer is 400
  \<open>invalid signature\<close> after one HMAC and one warning.
\<close>

theorem webhook_event_gated:
  assumes "\<not> signature_verifies webhookSecret req"
  shows "webhook webhookSecret (req\<lparr>body := b\<rparr>) = webhook webhookSecret req
       \<and> (\<forall>e \<in> set (snd (webhook webhookSecret req)). \<not> is_event_handling e)
       \<and> (webhookSecret = Some secret \<and> secret \<noteq> [] \<and> signature req = Some sig \<and> sig \<noteq> []
            \<and> rawBody req = Some raw
          \<longrightarrow> webhook webhookSecret req =
                (Inr (Response 400 (Text ''invalid signature'')),
                 [CreateHmac secret raw, ConsoleWarn ''Invalid webhook signature'']))"
  using assms
  by (auto simp: webhook_def signature_verifies_def secret_not_configured_def bad_request_def
      Let_def split: option.splits)

text \<open>A delivery of \<open>{}\<close> with a header that is too short to be a digest.\<close>

theorem webhook_event_gated_witness:
  "\<not> signature_verifies (Some ''whsec'')
       \<lparr>signature = Some ''deadbeef'', rawBody = Some [123, 125],
        body = JObj [(''event'', JStr ''payment_link.paid'')]\<rparr>
   \<and> webhook (Some ''whsec'')
       \<lparr>signature = Some ''deadbeef'', rawBody = Some [123, 125], body = JObj []\<rparr>
     = webhook (Some ''whsec'')
       \<lparr>signature = Some ''deadbeef'', rawBody = Some [123, 125],
        body = JObj [(''event'', JStr ''payment_link.paid'')]\<rparr>
   \<and> webhook (Some ''whsec'')
       \<lparr>signature = Some ''deadbeef'', rawBody = Some [123, 125],
        body = JObj [(''event'', JStr ''payment_link.paid'')]\<rparr>
     = (Inr (Response 400 (Text ''invalid signature'')),
        [CreateHmac ''whsec'' [123, 125], ConsoleWarn ''Invalid webhook signature''])"
proof -
  let ?req = "\<lparr>signature = Some ''deadbeef'', rawBody = Some [123, 125],
               body = JObj [(''event'', JStr ''payment_link.paid'')]\<rparr>"
  have h: "\<not> signature_verifies (Some ''whsec'') ?req"
    by (simp add: signature_verifies_def short_signature_differs)
  from webhook_event_gated [OF h, of "JObj []" "''whsec''" "''deadbeef''" "[123, 125]"] h
  show ?thesis by simp
qed

text \<open>
  C3, as the code has it. The secret check is the first thing the handler does, before
  any look at the header, the raw body or the parsed body: every request that reaches
  the handler of a server without a webhook secret (the variable unset, or set to the
  empty string, which is as falsy) is answered 500 \<open>webhook secret not configured\<close>,
  whatever it holds. A request whose body the JSON body parser refuses does not reach
  the handler: Express answers it with the parser's status before any route runs, the
  secret configured or not.
\<close>

theorem post_webhook_secret_unset:
  assumes "webhookSecret = None \<or> webhookSecret = Some []"
  shows "post_webhook webhookSecret sig parsed =
           (case parsed of
              ReadFailed status \<Rightarrow> (Response status ErrorPage, [])
            | _ \<Rightarrow> (Response 500 (Text ''webhook secret not configured''),
                    [ConsoleWarn ''RAZOR_WEBHOOK_SECRET not configured'']))"
  by (cases parsed) (simp_all add: webhook_secret_unset [OF assms] through_express_def)

text \<open>A delivery signed under the secret the provider holds, to a server that has none.\<close>

theorem post_webhook_secret_unset_witness:
  "(None = (None :: string option) \<or> None = Some [])
   \<and> post_webhook None (Some (hmac_sha256_hex ''whsec'' [123, 125])) (ReadOk [123, 125] (JObj []))
     = (Response 500 (Text ''webhook secret not configured''),
        [ConsoleWarn ''RAZOR_WEBHOOK_SECRET not configured''])"
  using post_webhook_secret_unset [of None "Some (hmac_sha256_hex ''whsec'' [123, 125])"
      "ReadOk [123, 125] (JObj [])"]
  by simp

text \<open>
  A delivery whose body is not JSON (say \<open>{"event":\<close>), to a server without a secret: the
  body parser fails with status 400, and that is the answer.
\<close>

theorem post_webhook_unparseable_body_counterexample:
  "post_webhook None (Some ''deadbeef'') (ReadFailed 400) = (Response 400 ErrorPage, [])"
  by simp

text \<open>
  C4, as the code has it. With the secret configured, a delivery whose signature header
  is absent or empty, or for which no raw body was captured, is answered 400
  \<open>bad request\<close> whatever the parsed body is, and no HMAC is computed. The test is
  \<open>!raw\<close> on a Buffer, so it asks whether a raw body was captured, not whether it has
  bytes.
\<close>

theorem webhook_missing_signature_or_body:
  assumes "webhookSecret = Some secret" and "secret \<noteq> []"
    and "signature req = None \<or> signature req = Some [] \<or> rawBody req = None"
  shows "webhook webhookSecret req =
           (Inr (Response 400 (Text ''bad request'')),
            [ConsoleWarn ''Missing signature or raw body''])
       \<and> filter is_hmac (snd (webhook webhookSecret req)) = []"
  using assms by (auto simp: webhook_def bad_request_def split: option.splits)

theorem webhook_missing_signature_or_body_witness:
  "Some ''whsec'' = Some ''whsec'' \<and> ''whsec'' \<noteq> []
   \<and> signature \<lparr>signature = None, rawBody = Some [123, 125], body = JObj []\<rparr> = None
   \<and> webhook (Some ''whsec'') \<lparr>signature = None, rawBody = Some [123, 125], body = JObj []\<rparr>
     = (Inr (Response 400 (Text ''bad request'')),
        [ConsoleWarn ''Missing signature or raw body''])"
  using webhook_missing_signature_or_body [of "Some ''whsec''" "''whsec''"
      "\<lparr>signature = None, rawBody = Some [123, 125], body = JObj []\<rparr>"]
  by simp

text \<open>
  A captured raw body of no bytes (a JSON request of content length 0, which the body
  parser reads as \<open>{}\<close>) is an empty Buffer, and a Buffer is truthy: the handler goes
  on to compute the HMAC of the empty byte string and answers by the signature.
\<close>

theorem webhook_empty_raw_body_counterexample:
  "webhook (Some ''whsec'') \<lparr>signature = Some ''deadbeef'', rawBody = Some [], body = JObj []\<rparr>
     = (Inr (Response 400 (Text ''invalid signature'')),
        [CreateHmac ''whsec'' [], ConsoleWarn ''Invalid webhook signature''])"
  by (simp add: webhook_def Let_def short_signature_differs)

lemma webhook_empty_raw_body_accepted:
  "webhook (Some ''whsec'')
       \<lparr>signature = Some (hmac_sha256_hex ''whsec'' []), rawBody = Some [], body = JObj []\<rparr>
     = (Inr (Response 200 (Text ''ok'')),
        [CreateHmac ''whsec'' [], ConsoleLog ''Verified webhook event:'' JUndefined])"
  by (simp add: webhook_def Let_def hmac_sha256_hex_nonempty)

text \<open>
  C5. A delivery whose signature verifies is answered 200 \<open>ok\<close> whatever its event
  field holds. The body is one whose event field can be read (an object or array, as the
  JSON body parser yields; the field may be missing, and then reads \<open>undefined\<close>). When
  the event is not the string \<open>payment_link.paid\<close>, the handler only computes the HMAC
  and logs the event.
\<close>

theorem webhook_verified_ok:
  assumes "webhookSecret = Some secret" and "secret \<noteq> []"
    and "rawBody req = Some raw"
    and "signature req = Some (hmac_sha256_hex secret raw)"
    and "get_prop (body req) ''event'' = Inr event"
  shows "fst (webhook webhookSecret req) = Inr (Response 200 (Text ''ok''))
       \<and> (event \<noteq> JStr ''payment_link.paid''
          \<longrightarrow> snd (webhook webhookSecret req) =
                [CreateHmac secret raw, ConsoleLog ''Verified webhook event:'' event])"
proof -
  obtain p where "get_prop (body req) ''payload'' = Inr p"
    using get_prop_other [OF assms(5)] by blast
  with assms show ?thesis
    by (simp add: webhook_def Let_def hmac_sha256_hex_nonempty)
qed

text \<open>A verified delivery with no event field.\<close>

theorem webhook_verified_ok_witness:
  "Some ''whsec'' = Some ''whsec'' \<and> ''whsec'' \<noteq> []
   \<and> get_prop (JObj [(''entity'', JStr ''event'')]) ''event'' = Inr JUndefined
   \<and> webhook (Some ''whsec'')
       \<lparr>signature = Some (hmac_sha256_hex ''whsec'' [123, 125]), rawBody = Some [123, 125],
        body = JObj [(''entity'', JStr ''event'')]\<rparr>
     = (Inr (Response 200 (Text ''ok'')),
        [CreateHmac ''whsec'' [123, 125], ConsoleLog ''Verified webhook event:'' JUndefined])"
proof -
  let ?req = "\<lparr>signature = Some (hmac_sha256_hex ''whsec'' [123, 125]),
               rawBody = Some [123, 125], body = JObj [(''entity'', JStr ''event'')]\<rparr>"
  have e: "get_prop (body ?req) ''event'' = Inr JUndefined"
    by simp
  from webhook_verified_ok [of "Some ''whsec''" "''whsec''" ?req "[123, 125]" JUndefined, OF _ _ _ _ e]
  have "fst (webhook (Some ''whsec'') ?req) = Inr (Response 200 (Text ''ok''))"
    and "snd (webhook (Some ''whsec'') ?req) =
           [CreateHmac ''whsec'' [123, 125], ConsoleLog ''Verified webhook event:'' JUndefined]"
    by simp_all
  then show ?thesis
    by (simp add: prod_eq_iff)
qed

section \<open>The link creator\<close>

text \<open>
  C6, as the code has it. The handler reads \<open>req.body.amount_in_inr\<close> and checks
  \<open>!amount_in_inr || typeof amount_in_inr !== 'number'\<close>. When \<open>req.body\<close> is
  \<open>undefined\<close> or \<open>null\<close> (no body was parsed) the read throws, and the answer is 500
  with \<open>{ error: 'internal server error' }\<close>. For every other body the answer is 400 with
  \<open>{ error: 'amount_in_inr required (number)' }\<close> exactly when the value read is
  missing (\<open>undefined\<close>), not a number, zero (+0 or -0) or NaN. Every other number
  passes the check, the negative and the infinite ones too.
\<close>

theorem create_link_amount_validation:
  "(reqBody = JUndefined \<or> reqBody = JNull \<longrightarrow>
      create_link reqBody provider =
        (Response 500 (Json (JObj [(''error'', JStr ''internal server error'')])),
         [ConsoleErrorExn ''create-link error:'' TypeError]))
   \<and> (reqBody \<noteq> JUndefined \<and> reqBody \<noteq> JNull \<longrightarrow>
      (\<exists>v. get_prop reqBody ''amount_in_inr'' = Inr v
         \<and> (fst (create_link reqBody provider) =
              Response 400 (Json (JObj [(''error'', JStr ''amount_in_inr required (number)'')]))
            \<longleftrightarrow> ((\<forall>n. v \<noteq> JNum n) \<or> v = JNum (Fin 0) \<or> v = JNum NZero \<or> v = JNum NaN))))"
proof (intro conjI impI)
  assume "reqBody = JUndefined \<or> reqBody = JNull"
  then show "create_link reqBody provider =
        (Response 500 (Json (JObj [(''error'', JStr ''internal server error'')])),
         [ConsoleErrorExn ''create-link error:'' TypeError])"
    by (auto simp: create_link_def internal_server_error_def caught_def)
next
  assume "reqBody \<noteq> JUndefined \<and> reqBody \<noteq> JNull"
  then obtain v where v: "get_prop reqBody ''amount_in_inr'' = Inr v"
    using get_prop_defined by blast
  from create_link_checked_amount [OF v, of provider] v
  show "\<exists>v. get_prop reqBody ''amount_in_inr'' = Inr v
         \<and> (fst (create_link reqBody provider) =
              Response 400 (Json (JObj [(''error'', JStr ''amount_in_inr required (number)'')]))
            \<longleftrightarrow> ((\<forall>n. v \<noteq> JNum n) \<or> v = JNum (Fin 0) \<or> v = JNum NZero \<or> v = JNum NaN))"
    by (simp add: amount_required_def)
qed

text \<open>A request without a parsed body, and a body that names the amount by another key.\<close>

theorem create_link_amount_validation_witness:
  "create_link JUndefined (FetchRejects TypeError) =
     (Response 500 (Json (JObj [(''error'', JStr ''internal server error'')])),
      [ConsoleErrorExn ''create-link error:'' TypeError])
   \<and> fst (create_link (JObj [(''amount'', JNum (Fin 10))]) (FetchRejects TypeError)) =
       Response 400 (Json (JObj [(''error'', JStr ''amount_in_inr required (number)'')]))"
  using create_link_amount_validation [of JUndefined "FetchRejects TypeError"]
    create_link_amount_validation [of "JObj [(''amount'', JNum (Fin 10))]" "FetchRejects TypeError"]
  by simp

text \<open>
  An amount of -5 passes the check: -500 is sent to the provider, and when the provider
  refuses it the client gets 502, not 400.
\<close>

theorem create_link_negative_amount_counterexample:
  "create_link (JObj [(''amount_in_inr'', JNum (Fin (- 5)))])
       (FetchResolves False (Inr (JObj [(''error'', JStr ''BAD_REQUEST_ERROR'')])))
     = (Response 502 (Json (JObj [(''error'', JStr ''payment provider error''),
                                  (''details'', JObj [(''error'', JStr ''BAD_REQUEST_ERROR'')])])),
        [Fetch ''https://api.razorpay.com/v1/payment_links''
           \<lparr>amount = Fin (- 500), currency = ''INR'', accept_partial = False,
            description = ''Payment to me (demo)''\<rparr>,
         ConsoleError ''Razorpay create-link error:'' (JObj [(''error'', JStr ''BAD_REQUEST_ERROR'')])])"
  by (simp add: create_link_def Let_def amountPaise_def js_mul_def round_double_minus
      Math_round_minus payload_def payment_links_url_def provider_error_def
      del: Math_round.simps)

text \<open>
  C7, as the code has it. For a body whose amount_in_inr can be read, the handler makes
  no call to the provider exactly when the value fails its check: missing, not a number,
  zero or NaN. A negative number does not fail the check and is sent.
\<close>

theorem create_link_no_fetch_when_rejected:
  assumes "get_prop reqBody ''amount_in_inr'' = Inr v"
  shows "filter is_fetch (snd (create_link reqBody provider)) = []
         \<longleftrightarrow> ((\<forall>n. v \<noteq> JNum n) \<or> v = JNum (Fin 0) \<or> v = JNum NZero \<or> v = JNum NaN)"
proof (cases "\<not> truthy v \<or> typeof v \<noteq> ''number''")
  case True
  then have "create_link reqBody provider = (amount_required, [])"
    using assms by (simp add: create_link_def)
  with True show ?thesis
    by (simp add: checked_amount_cases [symmetric])
next
  case False
  then have "filter is_fetch (snd (create_link reqBody provider)) \<noteq> []"
    using assms
    by (auto simp: create_link_def Let_def caught_def
        split: fetch_outcome.splits sum.splits)
  with False show ?thesis
    by (simp add: checked_amount_cases [symmetric])
qed

text \<open>An amount sent as the string \<open>"10"\<close>.\<close>

theorem create_link_no_fetch_when_rejected_witness:
  "get_prop (JObj [(''amount_in_inr'', JStr ''10'')]) ''amount_in_inr'' = Inr (JStr ''10'')
   \<and> filter is_fetch (snd (create_link (JObj [(''amount_in_inr'', JStr ''10'')])
        (FetchResolves True (Inr (JObj [(''short_url'', JStr ''https://rzp.io/i/abc'')]))))) = []"
  using create_link_no_fetch_when_rejected [of "JObj [(''amount_in_inr'', JStr ''10'')]"
      "JStr ''10''"
      "FetchResolves True (Inr (JObj [(''short_url'', JStr ''https://rzp.io/i/abc'')]))"]
  by simp

text \<open>An amount of -1 is sent to the provider as -100.\<close>

theorem create_link_negative_amount_fetch_counterexample:
  "snd (create_link (JObj [(''amount_in_inr'', JNum (Fin (- 1)))]) (FetchRejects TypeError))
     = [Fetch ''https://api.razorpay.com/v1/payment_links''
           \<lparr>amount = Fin (- 100), currency = ''INR'', accept_partial = False,
            description = ''Payment to me (demo)''\<rparr>,
        ConsoleErrorExn ''create-link error:'' TypeError]"
  by (simp add: create_link_def Let_def amountPaise_def js_mul_def round_double_minus
      Math_round_minus payload_def payment_links_url_def caught_def del: Math_round.simps)




text \<open>An amount of \<open>2\<^sup>1\<^sup>0\<^sup>2\<^sup>0\<close>: the product overflows, and the payload holds Infinity.\<close>

lemma create_link_overflow_example:
  "snd (create_link (JObj [(''amount_in_inr'', JNum (Fin (2 ^ 1020)))]) (FetchRejects TypeError))
     = [Fetch ''https://api.razorpay.com/v1/payment_links''
           \<lparr>amount = PInf, currency = ''INR'', accept_partial = False,
            description = ''Payment to me (demo)''\<rparr>,
        ConsoleErrorExn ''create-link error:'' TypeError]
   \<and> json_number PInf = JNull"
proof -
  have "pow2 1024 \<le> 2 ^ 1020 * 100"
    by (simp add: pow2_numerals)
  then have "round_double (2 ^ 1020 * 100) = PInf"
    by (rule round_double_huge)
  then have "amountPaise (JNum (Fin (2 ^ 1020))) = PInf"
    by (simp add: amountPaise_def js_mul_def)
  then show ?thesis
    by (simp add: create_link_def Let_def payload_def payment_links_url_def caught_def)
qed

text \<open>
  C9, as the code has it. For a request that passed the amount check, when the provider
  answers with a success status and a JSON value that contains neither \<open>short_url\<close> nor
  \<open>link_url\<close>: if the value is \<open>null\<close>, reading \<open>short_url\<close> throws and the answer is
  500 with \<open>{ error: 'internal server error' }\<close>; otherwise the answer is 200 with
  \<open>{ link_url: undefined }\<close>, which is sent as \<open>{}\<close>, a success result without a link.
  (No JSON text denotes \<open>undefined\<close>; as a reply it would behave as \<open>null\<close>.)
\<close>

theorem create_link_reply_without_url:
  assumes "get_prop reqBody ''amount_in_inr'' = Inr (JNum n)" and "truthy (JNum n)"
    and "\<not> has_field data ''short_url''" and "\<not> has_field data ''link_url''"
  shows "fst (create_link reqBody (FetchResolves True (Inr data))) =
           (if data = JNull \<or> data = JUndefined
            then Response 500 (Json (JObj [(''error'', JStr ''internal server error'')]))
            else Response 200 (Json (JObj [(''link_url'', JUndefined)])))"
  using assms
  by (cases data)
    (simp_all add: create_link_def Let_def link_result_def internal_server_error_def)

text \<open>A reply of \<open>{"id": "plink_1"}\<close>, and a reply of \<open>null\<close>.\<close>

theorem create_link_reply_without_url_witness:
  "get_prop (JObj [(''amount_in_inr'', JNum (Fin 10))]) ''amount_in_inr'' = Inr (JNum (Fin 10))
   \<and> truthy (JNum (Fin 10))
   \<and> \<not> has_field (JObj [(''id'', JStr ''plink_1'')]) ''short_url''
   \<and> \<not> has_field (JObj [(''id'', JStr ''plink_1'')]) ''link_url''
   \<and> fst (create_link (JObj [(''amount_in_inr'', JNum (Fin 10))])
            (FetchResolves True (Inr (JObj [(''id'', JStr ''plink_1'')])))) =
       Response 200 (Json (JObj [(''link_url'', JUndefined)]))
   \<and> fst (create_link (JObj [(''amount_in_inr'', JNum (Fin 10))])
            (FetchResolves True (Inr JNull))) =
       Response 500 (Json (JObj [(''error'', JStr ''internal server error'')]))"
  using create_link_reply_without_url [of "JObj [(''amount_in_inr'', JNum (Fin 10))]" "Fin 10"
      "JObj [(''id'', JStr ''plink_1'')]"]
    create_link_reply_without_url [of "JObj [(''amount_in_inr'', JNum (Fin 10))]" "Fin 10" JNull]
  by simp

text \<open>A provider reply of \<open>{"id": "plink_1"}\<close> to a request for 10 rupees.\<close>

theorem create_link_no_url_field_counterexample:
  "create_link (JObj [(''amount_in_inr'', JNum (Fin 10))])
       (FetchResolves True (Inr (JObj [(''id'', JStr ''plink_1'')])))
     = (Response 200 (Json (JObj [(''link_url'', JUndefined)])),
        [Fetch ''https://api.razorpay.com/v1/payment_links''
           \<lparr>amount = Fin 1000, currency = ''INR'', accept_partial = False,
            description = ''Payment to me (demo)''\<rparr>])"
  by (simp add: create_link_def Let_def amountPaise_10 payload_def payment_links_url_def
      link_result_def)




end
